theory Spec2Isabelle
  imports Complex_Main
begin

section \<open>Store monitoring: the uptime estimator and the report job\<close>

text \<open>
  A shallow embedding of \<^verbatim>\<open>store_monitoring/database.py\<close>, \<^verbatim>\<open>utils.py\<close> and
  \<^verbatim>\<open>report.py\<close>. The database connection is a record of its four tables, exceptions
  are the left summand of a sum type, and each Python loop is a recursive function.
\<close>

subsection \<open>Dates and times\<close>

text \<open>
  Python's \<^verbatim>\<open>datetime\<close>, \<^verbatim>\<open>time\<close> and \<^verbatim>\<open>timedelta\<close> have microsecond resolution.
  A naive UTC \<^verbatim>\<open>datetime\<close> is the number of microseconds since 1970-01-01 00:00:00 (a
  Thursday), a \<^verbatim>\<open>timedelta\<close> is a number of microseconds, and a \<^verbatim>\<open>time\<close> is
  the number of microseconds since midnight. The bounded year range of \<^verbatim>\<open>datetime\<close>
  (OverflowError outside the years 1 to 9999) is not modelled.
\<close>

type_synonym datetime = int
type_synonym timedelta = int
type_synonym time = int

definition td_hours :: "int \<Rightarrow> timedelta" where
  "td_hours n = n * 3600000000"

definition td_weeks :: "int \<Rightarrow> timedelta" where
  "td_weeks n = n * 604800000000"

definition time_hms :: "int \<Rightarrow> int \<Rightarrow> int \<Rightarrow> time" where
  "time_hms h m s = ((h * 60 + m) * 60 + s) * 1000000"

definition total_seconds :: "timedelta \<Rightarrow> rat" where
  "total_seconds td = of_int td / 1000000"

text \<open>
  A timezone-aware \<^verbatim>\<open>datetime\<close>, as \<^verbatim>\<open>astimezone\<close> of pytz returns it: the instant
  and the fixed UTC offset of its \<^verbatim>\<open>tzinfo\<close>. Aware datetimes compare and subtract by
  instant; \<^verbatim>\<open>+ timedelta\<close> keeps the \<^verbatim>\<open>tzinfo\<close>; \<^verbatim>\<open>.time()\<close> and
  \<^verbatim>\<open>.weekday()\<close> (Monday is 0) read the wall clock.
\<close>

record local_dt =
  instant :: datetime
  utcoffset :: timedelta

definition dt_time :: "local_dt \<Rightarrow> time" where
  "dt_time d = (instant d + utcoffset d) mod 86400000000"

definition dt_weekday :: "local_dt \<Rightarrow> int" where
  "dt_weekday d = ((instant d + utcoffset d) div 86400000000 + 3) mod 7"

definition dt_add :: "local_dt \<Rightarrow> timedelta \<Rightarrow> local_dt" where
  "dt_add d td = d\<lparr>instant := instant d + td\<rparr>"

definition dt_sub :: "local_dt \<Rightarrow> local_dt \<Rightarrow> timedelta" where
  "dt_sub a b = instant a - instant b"

definition dt_lt :: "local_dt \<Rightarrow> local_dt \<Rightarrow> bool" where
  "dt_lt a b = (instant a < instant b)"

definition dt_ge :: "local_dt \<Rightarrow> local_dt \<Rightarrow> bool" where
  "dt_ge a b = (instant a \<ge> instant b)"

text \<open>Python's \<^verbatim>\<open>max(a, b)\<close> returns \<^verbatim>\<open>b\<close> only when \<^verbatim>\<open>b > a\<close>.\<close>

definition dt_max :: "local_dt \<Rightarrow> local_dt \<Rightarrow> local_dt" where
  "dt_max a b = (if dt_lt a b then b else a)"

subsection \<open>Errors, dynamically typed cells, the database\<close>

datatype error = TypeError | UnknownTimeZoneError | FileNotFoundError

text \<open>
  A cell of a fetched \<^verbatim>\<open>menu_hours\<close> row: \<^verbatim>\<open>BIGINT\<close> and \<^verbatim>\<open>INT\<close> columns arrive as
  Python ints, \<^verbatim>\<open>TIME\<close> columns as \<^verbatim>\<open>datetime.time\<close>.
\<close>

datatype pyval = PInt int | PTime time

type_synonym hours_dict = "pyval \<rightharpoonup> (pyval \<times> pyval)"

text \<open>
  The tables of \<^verbatim>\<open>create_db\<close>, each a list of rows with the columns in the order of
  its \<^verbatim>\<open>CREATE TABLE\<close>: \<^verbatim>\<open>menu_hours(store_id, dayofweek, start_time_local,
  end_time_local)\<close>, \<^verbatim>\<open>store_tz(store_id, timezone)\<close>, \<^verbatim>\<open>store_data(store_id, status,
  timestamp_utc)\<close> and \<^verbatim>\<open>reports(report_id, status)\<close>. Timestamps are taken as the
  naive UTC datetimes that \<^verbatim>\<open>convert_utc_to_local\<close> expects.
\<close>

record conn =
  menu_hours :: "(int \<times> int \<times> time \<times> time) list"
  store_tz :: "(int \<times> string) list"
  store_data :: "(int \<times> string \<times> datetime) list"
  reports :: "(string \<times> string) list"

text \<open>
  What the program reads from outside the database: the pytz zone database (a zone is
  its UTC offset at each instant; an unknown name raises), the successive values of
  \<^verbatim>\<open>datetime.utcnow()\<close>, the \<^verbatim>\<open>strftime\<close> stamp of \<^verbatim>\<open>datetime.now()\<close>, and whether
  \<^verbatim>\<open>open(report_name, "w")\<close> succeeds (it raises when the directory
  \<^verbatim>\<open>reports\<close> does not exist).
\<close>

type_synonym tzinfo = "datetime \<Rightarrow> timedelta"

record env =
  pytz_timezone :: "string \<Rightarrow> tzinfo option"
  utcnow :: "nat \<Rightarrow> datetime"
  now_stamp :: string
  reports_dir_exists :: bool

subsection \<open>utils.py\<close>

definition localize :: "tzinfo \<Rightarrow> datetime \<Rightarrow> local_dt" where
  "localize tz utc_timestamp = \<lparr>instant = utc_timestamp, utcoffset = tz utc_timestamp\<rparr>"

definition convert_utc_to_local :: "env \<Rightarrow> datetime \<Rightarrow> string \<Rightarrow> error + local_dt" where
  "convert_utc_to_local e utc_timestamp timezone_str =
     (case pytz_timezone e timezone_str of
        None \<Rightarrow> Inl UnknownTimeZoneError
      | Some local_tz \<Rightarrow> Inr (localize local_tz utc_timestamp))"

text \<open>
  \<^verbatim>\<open>time_range\<close>, with the step of its only call and its default, one hour:
  \<^verbatim>\<open>while start_time < end_time: yield start_time; start_time += step\<close>.
\<close>

definition delta :: timedelta where
  "delta = td_hours 1"

function time_range :: "local_dt \<Rightarrow> local_dt \<Rightarrow> local_dt list" where
  "time_range start_time end_time =
     (if dt_lt start_time end_time
      then start_time # time_range (dt_add start_time delta) end_time
      else [])"
  by pat_completeness auto
termination
  by (relation "measure (\<lambda>(s, e). nat (instant e - instant s))")
     (auto simp: dt_lt_def dt_add_def delta_def td_hours_def)

declare time_range.simps [simp del]

subsection \<open>database.py: the fetches\<close>

definition fetch_store_ids :: "conn \<Rightarrow> int list" where
  "fetch_store_ids c = map (\<lambda>(store_id, dayofweek, start_time_local, end_time_local). store_id)
                           (menu_hours c)"

text \<open>\<^verbatim>\<open>SELECT * FROM menu_hours WHERE store_id = %s\<close>: every column, in table order.\<close>

definition select_menu_hours :: "conn \<Rightarrow> int \<Rightarrow> pyval list list" where
  "select_menu_hours c store_id =
     map (\<lambda>(sid, dayofweek, start_time_local, end_time_local).
            [PInt sid, PInt dayofweek, PTime start_time_local, PTime end_time_local])
         (filter (\<lambda>(sid, dayofweek, start_time_local, end_time_local). sid = store_id)
                 (menu_hours c))"

text \<open>\<^verbatim>\<open>for row in rows: hours[row[0]] = (row[1], row[2])\<close>\<close>

fun hours_of_rows :: "pyval list list \<Rightarrow> hours_dict \<Rightarrow> hours_dict" where
  "hours_of_rows [] hours = hours"
| "hours_of_rows (row # rows) hours = hours_of_rows rows (hours(row ! 0 \<mapsto> (row ! 1, row ! 2)))"

definition fetch_store_hours :: "conn \<Rightarrow> int \<Rightarrow> hours_dict" where
  "fetch_store_hours c store_id = hours_of_rows (select_menu_hours c store_id) Map.empty"

definition fetch_store_timezone :: "conn \<Rightarrow> int \<Rightarrow> string" where
  "fetch_store_timezone c store_id =
     (case filter (\<lambda>(sid, timezone). sid = store_id) (store_tz c) of
        [] \<Rightarrow> ''America/Chicago''
      | (sid, timezone) # rest \<Rightarrow> timezone)"

definition fetch_store_data :: "conn \<Rightarrow> int \<Rightarrow> datetime \<Rightarrow> datetime \<Rightarrow> (datetime \<times> string) list" where
  "fetch_store_data c store_id start_time end_time =
     map (\<lambda>(sid, status, timestamp_utc). (timestamp_utc, status))
         (filter (\<lambda>(sid, status, timestamp_utc).
                    sid = store_id \<and> timestamp_utc \<ge> start_time \<and> timestamp_utc < end_time)
                 (store_data c))"

subsection \<open>database.py: calculate\_uptime\_downtime\<close>

text \<open>
  The six counters of lines 294 to 299. An observation's minutes are
  \<^verbatim>\<open>total_seconds() / 60\<close>, a float in Python; here a rational. Every span the code
  adds is a whole number of minutes (it is sixty, as shown below), so the float sums are
  exact below \<open>2^53\<close>.
\<close>

record counters =
  uptime_minutes_hour :: rat
  downtime_minutes_hour :: rat
  uptime_minutes_day :: rat
  downtime_minutes_day :: rat
  uptime_minutes_week :: rat
  downtime_minutes_week :: rat

definition zero_counters :: counters where
  "zero_counters = \<lparr>uptime_minutes_hour = 0, downtime_minutes_hour = 0,
                     uptime_minutes_day = 0, downtime_minutes_day = 0,
                     uptime_minutes_week = 0, downtime_minutes_week = 0\<rparr>"

record report_row =
  store_id :: int
  uptime_last_hour :: rat
  downtime_last_hour :: rat
  uptime_last_day :: rat
  downtime_last_day :: rat
  uptime_last_week :: rat
  downtime_last_week :: rat

text \<open>
  Lines 330 to 334 and 336 to 340:
  \<^verbatim>\<open>(data_local_timestamp + delta - max(data_local_timestamp, hour_start_time)).total_seconds() / 60\<close>
\<close>

definition span_minutes :: "local_dt \<Rightarrow> local_dt \<Rightarrow> rat" where
  "span_minutes data_local_timestamp hour_start_time =
     total_seconds (dt_sub (dt_add data_local_timestamp delta)
                           (dt_max data_local_timestamp hour_start_time)) / 60"

text \<open>The loop over \<^verbatim>\<open>store_data\<close>, lines 321 to 340, on the pair (hour\_uptime, hour\_downtime).\<close>

fun apportion :: "tzinfo \<Rightarrow> local_dt \<Rightarrow> local_dt \<Rightarrow> (datetime \<times> string) list \<Rightarrow> rat \<times> rat \<Rightarrow> rat \<times> rat" where
  "apportion tz hour_start_time hour_end_time [] acc = acc"
| "apportion tz hour_start_time hour_end_time ((data_timestamp_utc, data_status) # rest)
             (hour_uptime, hour_downtime) =
     (let data_local_timestamp = localize tz data_timestamp_utc in
      if dt_ge data_local_timestamp hour_start_time \<and> dt_lt data_local_timestamp hour_end_time
      then
        if data_status = ''active''
        then apportion tz hour_start_time hour_end_time rest
               (hour_uptime + span_minutes data_local_timestamp hour_start_time, hour_downtime)
        else if data_status = ''inactive''
        then apportion tz hour_start_time hour_end_time rest
               (hour_uptime, hour_downtime + span_minutes data_local_timestamp hour_start_time)
        else apportion tz hour_start_time hour_end_time rest (hour_uptime, hour_downtime)
      else apportion tz hour_start_time hour_end_time rest (hour_uptime, hour_downtime))"

text \<open>
  Lines 308 to 313: \<^verbatim>\<open>hours[hour_dow]\<close>, with the \<^verbatim>\<open>KeyError\<close> fallback
  \<^verbatim>\<open>time(0, 0)\<close>, \<^verbatim>\<open>time(23, 59, 59)\<close>.
\<close>

definition business_hours :: "hours_dict \<Rightarrow> int \<Rightarrow> pyval \<times> pyval" where
  "business_hours hours hour_dow =
     (case hours (PInt hour_dow) of
        Some (hour_business_start_time, hour_business_end_time) \<Rightarrow>
          (hour_business_start_time, hour_business_end_time)
      | None \<Rightarrow> (PTime (time_hms 0 0 0), PTime (time_hms 23 59 59)))"

text \<open>A \<^verbatim>\<open>datetime.time\<close> orders against another one only; against an int it raises.\<close>

fun time_lt :: "time \<Rightarrow> pyval \<Rightarrow> error + bool" where
  "time_lt t (PTime u) = Inr (t < u)"
| "time_lt t (PInt n) = Inl TypeError"

fun time_gt :: "time \<Rightarrow> pyval \<Rightarrow> error + bool" where
  "time_gt t (PTime u) = Inr (t > u)"
| "time_gt t (PInt n) = Inl TypeError"

text \<open>Lines 316 to 319; \<^verbatim>\<open>and\<close> does not evaluate its right operand after a false left one.\<close>

definition within_business_hours :: "local_dt \<Rightarrow> local_dt \<Rightarrow> pyval \<Rightarrow> pyval \<Rightarrow> error + bool" where
  "within_business_hours hour_start_time hour_end_time hour_business_start_time hour_business_end_time =
     (case time_lt (dt_time hour_start_time) hour_business_end_time of
        Inl err \<Rightarrow> Inl err
      | Inr False \<Rightarrow> Inr False
      | Inr True \<Rightarrow> time_gt (dt_time hour_end_time) hour_business_start_time)"

text \<open>Lines 343 to 348: the fixed window for the day counters.\<close>

definition in_day_window :: "local_dt \<Rightarrow> bool" where
  "in_day_window hour_start_time =
     (dt_time hour_start_time \<ge> time_hms 9 0 0 \<and> dt_time hour_start_time < time_hms 21 0 0)"

text \<open>The body of the loop over the hours, lines 304 to 356.\<close>

definition hour_body :: "tzinfo \<Rightarrow> hours_dict \<Rightarrow> (datetime \<times> string) list \<Rightarrow> counters \<Rightarrow> local_dt
                         \<Rightarrow> error + counters" where
  "hour_body tz hours data c hour_start_time =
     (let hour_end_time = dt_add hour_start_time delta;
          hour_dow = dt_weekday hour_start_time;
          (hour_business_start_time, hour_business_end_time) = business_hours hours hour_dow
      in case within_business_hours hour_start_time hour_end_time
                hour_business_start_time hour_business_end_time of
           Inl err \<Rightarrow> Inl err
         | Inr False \<Rightarrow>
             Inr (c\<lparr>uptime_minutes_hour := uptime_minutes_hour c + 0,
                    downtime_minutes_hour := downtime_minutes_hour c + 0\<rparr>)
         | Inr True \<Rightarrow>
             (let (hour_uptime, hour_downtime) =
                    apportion tz hour_start_time hour_end_time data (0, 0);
                  c1 = (if in_day_window hour_start_time
                        then c\<lparr>uptime_minutes_day := uptime_minutes_day c + hour_uptime,
                               downtime_minutes_day := downtime_minutes_day c + hour_downtime\<rparr>
                        else c);
                  c2 = c1\<lparr>uptime_minutes_week := uptime_minutes_week c1 + hour_uptime,
                          downtime_minutes_week := downtime_minutes_week c1 + hour_downtime\<rparr>
              in Inr (c2\<lparr>uptime_minutes_hour := uptime_minutes_hour c2 + hour_uptime,
                         downtime_minutes_hour := downtime_minutes_hour c2 + hour_downtime\<rparr>)))"

fun walk_hours :: "tzinfo \<Rightarrow> hours_dict \<Rightarrow> (datetime \<times> string) list \<Rightarrow> local_dt list \<Rightarrow> counters
                   \<Rightarrow> error + counters" where
  "walk_hours tz hours data [] c = Inr c"
| "walk_hours tz hours data (hour_start_time # rest) c =
     (case hour_body tz hours data c hour_start_time of
        Inl err \<Rightarrow> Inl err
      | Inr c' \<Rightarrow> walk_hours tz hours data rest c')"

text \<open>Lines 360 to 374: the returned dictionary.\<close>

definition row_of_counters :: "int \<Rightarrow> counters \<Rightarrow> report_row" where
  "row_of_counters sid c =
     \<lparr>store_id = sid,
      uptime_last_hour = uptime_minutes_hour c,
      downtime_last_hour = downtime_minutes_hour c,
      uptime_last_day = uptime_minutes_day c / 60,
      downtime_last_day = downtime_minutes_day c / 60,
      uptime_last_week = uptime_minutes_week c / 60,
      downtime_last_week = downtime_minutes_week c / 60\<rparr>"

text \<open>
  Lines 289 to 374, on the three fetched inputs: the zone of the store, its
  observations and its \<^verbatim>\<open>hours\<close> dictionary.
\<close>

definition estimate :: "tzinfo \<Rightarrow> int \<Rightarrow> (datetime \<times> string) list \<Rightarrow> hours_dict
                        \<Rightarrow> datetime \<Rightarrow> datetime \<Rightarrow> error + report_row" where
  "estimate tz sid data hours start_time end_time =
     (let local_start_time = localize tz start_time;
          local_end_time = localize tz end_time
      in case walk_hours tz hours data (time_range local_start_time local_end_time) zero_counters of
           Inl err \<Rightarrow> Inl err
         | Inr c \<Rightarrow> Inr (row_of_counters sid c))"

text \<open>
  The whole function. Every \<^verbatim>\<open>convert_utc_to_local\<close> of a call names the same zone, so
  \<^verbatim>\<open>pytz.timezone\<close> raises at the first one, line 290, or at none.
\<close>

definition calculate_uptime_downtime :: "env \<Rightarrow> conn \<Rightarrow> int \<Rightarrow> datetime \<Rightarrow> datetime
                                         \<Rightarrow> error + report_row" where
  "calculate_uptime_downtime e c sid start_time end_time =
     (let store_timezone = fetch_store_timezone c sid;
          data = fetch_store_data c sid start_time end_time;
          hours = fetch_store_hours c sid
      in case pytz_timezone e store_timezone of
           None \<Rightarrow> Inl UnknownTimeZoneError
         | Some tz \<Rightarrow> estimate tz sid data hours start_time end_time)"

subsection \<open>database.py: generate\_report, and report.py\<close>

text \<open>
  The loop of lines 389 to 398; \<open>k\<close> counts the calls of \<^verbatim>\<open>datetime.utcnow()\<close> made
  so far, two for each store. An exception leaves the loop and the function.
\<close>

fun report_loop :: "env \<Rightarrow> conn \<Rightarrow> int list \<Rightarrow> nat \<Rightarrow> report_row list \<Rightarrow> error + report_row list" where
  "report_loop e c [] k report_data = Inr report_data"
| "report_loop e c (sid # stores) k report_data =
     (case calculate_uptime_downtime e c sid (utcnow e k - td_weeks 1) (utcnow e (k + 1)) of
        Inl err \<Rightarrow> Inl err
      | Inr row \<Rightarrow> report_loop e c stores (k + 2) (report_data @ [row]))"

definition report_name :: "env \<Rightarrow> string" where
  "report_name e = ''reports/report_'' @ now_stamp e @ ''.csv''"

text \<open>\<^verbatim>\<open>UPDATE reports SET status = %s WHERE report_id = %s\<close>\<close>

definition update_report_status :: "conn \<Rightarrow> string \<Rightarrow> string \<Rightarrow> conn" where
  "update_report_status c new_status report_id =
     c\<lparr>reports := map (\<lambda>(rid, status). if rid = report_id then (rid, new_status) else (rid, status))
                      (reports c)\<rparr>"

text \<open>
  \<^verbatim>\<open>database.generate_report\<close>: on success the new connection state and the file
  written (its name and rows); on an exception nothing has been written.
\<close>

definition generate_report_db :: "env \<Rightarrow> conn \<Rightarrow> string
                                  \<Rightarrow> error + (conn \<times> string \<times> report_row list)" where
  "generate_report_db e c report_id =
     (case report_loop e c (fetch_store_ids c) 0 [] of
        Inl err \<Rightarrow> Inl err
      | Inr report_data \<Rightarrow>
          if \<not> reports_dir_exists e then Inl FileNotFoundError
          else Inr (update_report_status c (report_name e) report_id,
                    report_name e, report_data))"

text \<open>\<^verbatim>\<open>report.get_report_status\<close>: the status of the first row found, or \<^verbatim>\<open>None\<close>.\<close>

definition get_report_status :: "conn \<Rightarrow> string \<Rightarrow> string option" where
  "get_report_status c report_id =
     (case filter (\<lambda>(rid, status). rid = report_id) (reports c) of
        [] \<Rightarrow> None
      | (rid, status) # rest \<Rightarrow> Some status)"

text \<open>
  \<^verbatim>\<open>report.generate_report\<close>, the background task: the committed \<^verbatim>\<open>INSERT\<close> of the
  "Running" row, then \<^verbatim>\<open>database.generate_report\<close>. The result is the state of the
  connection when the task ends, and the exception that ended it, if any.
\<close>

definition generate_report :: "env \<Rightarrow> conn \<Rightarrow> string \<Rightarrow> conn \<times> error option" where
  "generate_report e c report_id =
     (let c1 = c\<lparr>reports := reports c @ [(report_id, ''Running'')]\<rparr>
      in case generate_report_db e c1 report_id of
           Inl err \<Rightarrow> (c1, Some err)
         | Inr (c2, file) \<Rightarrow> (c2, None))"

subsection \<open>Values used in the statements\<close>

text \<open>The zone UTC, of offset zero at every instant.\<close>

definition utc :: tzinfo where
  "utc = (\<lambda>t. 0)"

text \<open>
  An \<^verbatim>\<open>hours\<close> dictionary as the loop of \<^verbatim>\<open>calculate_uptime_downtime\<close> unpacks it: the
  entry of each weekday that has one is a pair of \<^verbatim>\<open>datetime.time\<close> values.
\<close>

definition time_valued :: "hours_dict \<Rightarrow> bool" where
  "time_valued hours =
     (\<forall>dow \<in> {0..6}. case hours (PInt dow) of
                         None \<Rightarrow> True
                       | Some (a, b) \<Rightarrow> (case a of PTime x \<Rightarrow> True | PInt n \<Rightarrow> False) \<and>
                                        (case b of PTime x \<Rightarrow> True | PInt n \<Rightarrow> False))"

text \<open>The row of a store whose six outputs are zero.\<close>

definition zero_row :: "int \<Rightarrow> report_row" where
  "zero_row sid = \<lparr>store_id = sid, uptime_last_hour = 0, downtime_last_hour = 0,
                   uptime_last_day = 0, downtime_last_day = 0,
                   uptime_last_week = 0, downtime_last_week = 0\<rparr>"

text \<open>
  A small world for the concrete statements: a zone database that knows UTC and
  America/Chicago (at its winter offset of six hours), a clock that reads
  1970-01-13 00:00:00 and advances a microsecond at each call, and a writable
  \<^verbatim>\<open>reports\<close> directory; a database of two stores, 101 in UTC and 102 without a
  \<^verbatim>\<open>store_tz\<close> row, whose only observation is older than a week; and the same database
  with an unknown zone name for store 102.
\<close>

definition example_env :: env where
  "example_env =
     \<lparr>pytz_timezone = (\<lambda>name. if name = ''UTC'' then Some utc
                              else if name = ''America/Chicago'' then Some (\<lambda>t. - 21600000000)
                              else None),
      utcnow = (\<lambda>k. 1036800000000 + int k),
      now_stamp = ''19700113_000000'',
      reports_dir_exists = True\<rparr>"

definition example_conn :: conn where
  "example_conn =
     \<lparr>menu_hours = [(101, 0, time_hms 9 0 0, time_hms 17 0 0),
                    (102, 0, time_hms 9 0 0, time_hms 17 0 0)],
      store_tz = [(101, ''UTC'')],
      store_data = [(101, ''active'', 100)],
      reports = []\<rparr>"

definition faulty_conn :: conn where
  "faulty_conn = example_conn\<lparr>store_tz := [(101, ''UTC''), (102, ''Mars/Olympus_Mons'')]\<rparr>"

text \<open>
  A database with one store in UTC whose schedule is Monday, 09:00 to 17:00, and whose
  single observation is "active" at the given instant.
\<close>

definition monday_store_conn :: "int \<Rightarrow> datetime \<Rightarrow> conn" where
  "monday_store_conn sid timestamp_utc =
     \<lparr>menu_hours = [(sid, 0, time_hms 9 0 0, time_hms 17 0 0)],
      store_tz = [(sid, ''UTC'')],
      store_data = [(sid, ''active'', timestamp_utc)],
      reports = []\<rparr>"

section \<open>Properties\<close>

subsection \<open>One observation, one hour\<close>

text \<open>
  \<^verbatim>\<open>convert_utc_to_local\<close> raises for an unknown zone name and localizes otherwise; this is
  how \<^verbatim>\<open>calculate_uptime_downtime\<close> above resolves the zone once and then localizes.
\<close>

lemma convert_utc_to_local_cases:
  "convert_utc_to_local e utc_timestamp timezone_str =
     (case pytz_timezone e timezone_str of
        None \<Rightarrow> Inl UnknownTimeZoneError
      | Some tz \<Rightarrow> Inr (localize tz utc_timestamp))"
  by (simp add: convert_utc_to_local_def)

lemma span_minutes_sixty:
  "instant hs \<le> instant d \<Longrightarrow> span_minutes d hs = 60"
  by (simp add: span_minutes_def dt_max_def dt_lt_def dt_sub_def dt_add_def
                delta_def td_hours_def total_seconds_def)

lemma instant_localize: "instant (localize tz ts) = ts"
  by (simp add: localize_def)

lemma apportion_counts:
  "apportion tz hs he data (u, d) =
     (u + 60 * of_nat (length (filter (\<lambda>(ts, st). instant hs \<le> ts \<and> ts < instant he \<and> st = ''active'') data)),
      d + 60 * of_nat (length (filter (\<lambda>(ts, st). instant hs \<le> ts \<and> ts < instant he \<and> st = ''inactive'') data)))"
proof (induction data arbitrary: u d)
  case Nil
  show ?case by simp
next
  case (Cons obs rest)
  obtain ts st where obs: "obs = (ts, st)" by (cases obs)
  show ?case
    by (simp add: obs Cons.IH Let_def dt_ge_def dt_lt_def instant_localize span_minutes_sixty)
qed

text \<open>
  C8. An observation localized into a visited hour, \<open>hour_start \<le> t < hour_end\<close>, has the
  computed span \<open>(t + 1h) - max(t, hour_start)\<close> of exactly sixty minutes; so the uptime of
  a visited hour is sixty times the number of its "active" observations, its downtime
  sixty times the number of its "inactive" ones, and any other status adds nothing.
\<close>

theorem visited_hour_sixty_minutes_per_observation:
  "(\<forall>ts. instant hour_start_time \<le> ts \<and> ts < instant (dt_add hour_start_time delta) \<longrightarrow>
         span_minutes (localize tz ts) hour_start_time = 60) \<and>
   apportion tz hour_start_time (dt_add hour_start_time delta) data (0, 0) =
     (60 * of_nat (length (filter (\<lambda>(ts, st). instant hour_start_time \<le> ts \<and>
                                     ts < instant (dt_add hour_start_time delta) \<and>
                                     st = ''active'') data)),
      60 * of_nat (length (filter (\<lambda>(ts, st). instant hour_start_time \<le> ts \<and>
                                     ts < instant (dt_add hour_start_time delta) \<and>
                                     st = ''inactive'') data)))"
  by (simp add: apportion_counts span_minutes_sixty instant_localize del: apportion.simps)

theorem visited_hour_sixty_minutes_per_observation_witness:
  "span_minutes (localize utc 379000000000) \<lparr>instant = 378000000000, utcoffset = 0\<rparr> = 60 \<and>
   apportion utc \<lparr>instant = 378000000000, utcoffset = 0\<rparr>
     (dt_add \<lparr>instant = 378000000000, utcoffset = 0\<rparr> delta)
     [(378000000000, ''active''), (379000000000, ''inactive''), (379000000001, ''closed''),
      (381599999999, ''active''), (381600000000, ''active''), (0, ''inactive'')] (0, 0)
   = (120, 60)"
proof -
  note t = visited_hour_sixty_minutes_per_observation
             [of "\<lparr>instant = 378000000000, utcoffset = 0\<rparr>" utc
                 "[(378000000000, ''active''), (379000000000, ''inactive''),
                   (379000000001, ''closed''), (381599999999, ''active''),
                   (381600000000, ''active''), (0, ''inactive'')]"]
  have "span_minutes (localize utc 379000000000) \<lparr>instant = 378000000000, utcoffset = 0\<rparr> = 60"
    using t[THEN conjunct1, THEN spec, of 379000000000]
    by (simp add: dt_add_def delta_def td_hours_def)
  moreover have "apportion utc \<lparr>instant = 378000000000, utcoffset = 0\<rparr>
     (dt_add \<lparr>instant = 378000000000, utcoffset = 0\<rparr> delta)
     [(378000000000, ''active''), (379000000000, ''inactive''), (379000000001, ''closed''),
      (381599999999, ''active''), (381600000000, ''active''), (0, ''inactive'')] (0, 0)
     = (120, 60)"
    unfolding t[THEN conjunct2]
    by (simp add: dt_add_def delta_def td_hours_def)
  ultimately show ?thesis by simp
qed

text \<open>
  C3, as the code has it. An observation five minutes before the end of a visited hour
  has a span of sixty minutes, not sixty-five; the whole of it goes to the accumulator of
  the hour it falls in, by its status, and none of it to the next hour's.
\<close>

theorem five_minutes_before_boundary_contributes_sixty:
  "span_minutes (localize tz (instant hour_start_time + 3300000000)) hour_start_time = 60 \<and>
   apportion tz hour_start_time (dt_add hour_start_time delta)
     [(instant hour_start_time + 3300000000, status)] (0, 0) =
     (if status = ''active'' then (60, 0) else if status = ''inactive'' then (0, 60) else (0, 0)) \<and>
   apportion tz (dt_add hour_start_time delta) (dt_add (dt_add hour_start_time delta) delta)
     [(instant hour_start_time + 3300000000, status)] (0, 0) = (0, 0)"
  by (simp add: apportion_counts span_minutes_sixty instant_localize dt_add_def delta_def
                td_hours_def del: apportion.simps)

subsection \<open>The walk over the hours\<close>

lemma time_range_step:
  "dt_lt s e \<Longrightarrow> time_range s e = s # time_range (dt_add s delta) e"
  by (subst time_range.simps) simp

lemma time_range_stop:
  "\<not> dt_lt s e \<Longrightarrow> time_range s e = []"
  by (subst time_range.simps) simp

lemma time_range_single:
  "instant s < instant e \<Longrightarrow> instant e \<le> instant s + 3600000000 \<Longrightarrow> time_range s e = [s]"
  by (simp add: time_range_step time_range_stop dt_lt_def dt_add_def delta_def td_hours_def)

text \<open>
  The observation of 09:55 on Monday 1970-01-05, in the window from 09:00 to 11:00 of a
  store in UTC that is open all day: sixty minutes in the hour from 09:00, nothing in the
  hour from 10:00, and sixty minutes, one hour, in the outputs.
\<close>

theorem five_minutes_before_boundary_counterexample:
  "apportion utc \<lparr>instant = 378000000000, utcoffset = 0\<rparr> \<lparr>instant = 381600000000, utcoffset = 0\<rparr>
     [(381300000000, ''active'')] (0, 0) = (60, 0) \<and>
   fst (apportion utc \<lparr>instant = 378000000000, utcoffset = 0\<rparr>
          \<lparr>instant = 381600000000, utcoffset = 0\<rparr> [(381300000000, ''active'')] (0, 0)) \<noteq> 65 \<and>
   apportion utc \<lparr>instant = 381600000000, utcoffset = 0\<rparr> \<lparr>instant = 385200000000, utcoffset = 0\<rparr>
     [(381300000000, ''active'')] (0, 0) = (0, 0) \<and>
   estimate utc 1 [(381300000000, ''active'')] Map.empty 378000000000 385200000000 =
     Inr \<lparr>store_id = 1, uptime_last_hour = 60, downtime_last_hour = 0,
          uptime_last_day = 1, downtime_last_day = 0,
          uptime_last_week = 1, downtime_last_week = 0\<rparr>"
  by (simp add: estimate_def Let_def time_range_step time_range_stop hour_body_def
                business_hours_def within_business_hours_def in_day_window_def
                zero_counters_def row_of_counters_def span_minutes_def total_seconds_def
                dt_max_def dt_sub_def dt_ge_def dt_lt_def dt_add_def dt_time_def dt_weekday_def
                localize_def utc_def time_hms_def delta_def td_hours_def)

lemma hour_body_hour_week:
  "hour_body tz hours data c hs = Inr c' \<Longrightarrow>
   uptime_minutes_hour c' - uptime_minutes_hour c = uptime_minutes_week c' - uptime_minutes_week c \<and>
   downtime_minutes_hour c' - downtime_minutes_hour c = downtime_minutes_week c' - downtime_minutes_week c"
  by (auto simp: hour_body_def Let_def split: prod.splits sum.splits bool.splits if_splits)

lemma walk_hours_hour_week:
  "walk_hours tz hours data hs_list c = Inr c' \<Longrightarrow>
   uptime_minutes_hour c' - uptime_minutes_hour c = uptime_minutes_week c' - uptime_minutes_week c \<and>
   downtime_minutes_hour c' - downtime_minutes_hour c = downtime_minutes_week c' - downtime_minutes_week c"
proof (induction hs_list arbitrary: c)
  case Nil
  then show ?case by simp
next
  case (Cons hs rest)
  from Cons.prems obtain c1 where b: "hour_body tz hours data c hs = Inr c1"
    and w: "walk_hours tz hours data rest c1 = Inr c'"
    by (auto split: sum.splits)
  from hour_body_hour_week[OF b] Cons.IH[OF w] show ?case by linarith
qed

text \<open>
  C2. Whatever the zone, the \<open>hours\<close> dictionary, the observations and the window, the
  returned \<open>uptime_last_hour\<close> is sixty times the returned \<open>uptime_last_week\<close>, and
  likewise for the downtime: the "last hour" counters accumulate over every hour of the
  window, as the week counters do.
\<close>

theorem last_hour_is_sixty_times_last_week:
  "estimate tz sid data hours start_time end_time = Inr r \<Longrightarrow>
     uptime_last_hour r = 60 * uptime_last_week r \<and>
     downtime_last_hour r = 60 * downtime_last_week r"
  using walk_hours_hour_week
          [of tz hours data "time_range (localize tz start_time) (localize tz end_time)" zero_counters]
  by (auto simp: estimate_def Let_def row_of_counters_def zero_counters_def split: sum.splits)

lemma calculate_hour_week:
  "calculate_uptime_downtime e c sid start_time end_time = Inr r \<Longrightarrow>
     uptime_last_hour r = 60 * uptime_last_week r \<and>
     downtime_last_hour r = 60 * downtime_last_week r"
  using walk_hours_hour_week
  by (fastforce simp: calculate_uptime_downtime_def estimate_def Let_def row_of_counters_def
                      zero_counters_def split: option.splits sum.splits)

theorem last_hour_is_sixty_times_last_week_witness:
  "estimate utc 1 [(381300000000, ''active''), (382000000000, ''inactive'')] Map.empty
            378000000000 385200000000 =
     Inr \<lparr>store_id = 1, uptime_last_hour = 60, downtime_last_hour = 60,
          uptime_last_day = 1, downtime_last_day = 1,
          uptime_last_week = 1, downtime_last_week = 1\<rparr> \<and>
   uptime_last_hour \<lparr>store_id = 1, uptime_last_hour = 60, downtime_last_hour = 60,
          uptime_last_day = 1, downtime_last_day = 1,
          uptime_last_week = 1, downtime_last_week = (1::rat)\<rparr> =
   60 * uptime_last_week \<lparr>store_id = 1, uptime_last_hour = 60, downtime_last_hour = 60,
          uptime_last_day = 1, downtime_last_day = 1,
          uptime_last_week = (1::rat), downtime_last_week = 1\<rparr>"
proof -
  have h: "estimate utc 1 [(381300000000, ''active''), (382000000000, ''inactive'')] Map.empty
            378000000000 385200000000 =
     Inr \<lparr>store_id = 1, uptime_last_hour = 60, downtime_last_hour = 60,
          uptime_last_day = 1, downtime_last_day = 1,
          uptime_last_week = 1, downtime_last_week = 1\<rparr>"
    by (simp add: estimate_def Let_def time_range_step time_range_stop hour_body_def
                business_hours_def within_business_hours_def in_day_window_def
                zero_counters_def row_of_counters_def span_minutes_def total_seconds_def
                dt_max_def dt_sub_def dt_ge_def dt_lt_def dt_add_def dt_time_def dt_weekday_def
                localize_def utc_def time_hms_def delta_def td_hours_def)
  from last_hour_is_sixty_times_last_week[OF h] h show ?thesis by simp
qed

subsection \<open>Business hours\<close>

text \<open>
  The body of the loop on a dictionary whose entry for the weekday of the hour is a pair
  of times, the way line 309 unpacks it. This is not a dictionary that
  \<^verbatim>\<open>fetch_store_hours\<close> builds: the whole function is taken up further down.
\<close>

lemma hour_body_times:
  assumes "business_hours hours (dt_weekday hs) = (PTime a, PTime b)"
  shows "hour_body tz hours data c hs =
     (if dt_time hs < b \<and> dt_time (dt_add hs delta) > a
      then
        (case apportion tz hs (dt_add hs delta) data (0, 0) of
           (hour_uptime, hour_downtime) \<Rightarrow>
             Inr \<lparr>uptime_minutes_hour = uptime_minutes_hour c + hour_uptime,
                  downtime_minutes_hour = downtime_minutes_hour c + hour_downtime,
                  uptime_minutes_day =
                    uptime_minutes_day c + (if in_day_window hs then hour_uptime else 0),
                  downtime_minutes_day =
                    downtime_minutes_day c + (if in_day_window hs then hour_downtime else 0),
                  uptime_minutes_week = uptime_minutes_week c + hour_uptime,
                  downtime_minutes_week = downtime_minutes_week c + hour_downtime\<rparr>)
      else Inr c)"
  using assms
  by (cases c; cases "dt_time hs < b"; cases "a < dt_time (dt_add hs delta)")
     (simp_all add: hour_body_def within_business_hours_def Let_def split: prod.splits
               del: apportion.simps)

text \<open>
  The scenario of one "active" observation at 09:00 of a Monday, with that hour as the
  window, on the dictionary \<open>{0: (09:00, 17:00)}\<close> keyed by weekday: sixty minutes for
  the hour, one hour for the day and the week. Again this is the loop alone, on a
  dictionary that \<^verbatim>\<open>fetch_store_hours\<close> does not build.
\<close>

lemma estimate_monday_weekday_keyed_hours:
  assumes wd: "dt_weekday (localize utc start_time) = 0"
    and tm: "dt_time (localize utc start_time) = time_hms 9 0 0"
  shows "estimate utc sid [(start_time, ''active'')]
           [PInt 0 \<mapsto> (PTime (time_hms 9 0 0), PTime (time_hms 17 0 0))]
           start_time (start_time + delta)
         = Inr \<lparr>store_id = sid, uptime_last_hour = 60, downtime_last_hour = 0,
                uptime_last_day = 1, downtime_last_day = 0,
                uptime_last_week = 1, downtime_last_week = 0\<rparr>"
proof -
  let ?hs = "localize utc start_time"
  let ?hours = "[PInt 0 \<mapsto> (PTime (time_hms 9 0 0), PTime (time_hms 17 0 0))]"
  have tr: "time_range ?hs (localize utc (start_time + delta)) = [?hs]"
    by (rule time_range_single) (simp_all add: localize_def delta_def td_hours_def)
  have m: "start_time mod 86400000000 = 32400000000"
    using tm by (simp add: dt_time_def localize_def utc_def time_hms_def)
  have "(start_time + 3600000000) mod 86400000000 =
        (start_time mod 86400000000 + 3600000000) mod 86400000000"
    by (simp add: mod_add_left_eq)
  then have te: "dt_time (dt_add ?hs delta) = time_hms 10 0 0"
    using m by (simp add: dt_time_def dt_add_def localize_def utc_def delta_def td_hours_def
                          time_hms_def)
  have bh: "business_hours ?hours (dt_weekday ?hs) = (PTime (time_hms 9 0 0), PTime (time_hms 17 0 0))"
    by (simp add: business_hours_def wd)
  have ap: "apportion utc ?hs (dt_add ?hs delta) [(start_time, ''active'')] (0, 0) = (60, 0)"
    unfolding apportion_counts by (simp add: dt_add_def localize_def delta_def td_hours_def)
  have dw: "in_day_window ?hs"
    by (simp add: in_day_window_def tm time_hms_def)
  have hb: "hour_body utc ?hours [(start_time, ''active'')] zero_counters ?hs =
              Inr \<lparr>uptime_minutes_hour = 60, downtime_minutes_hour = 0,
                   uptime_minutes_day = 60, downtime_minutes_day = 0,
                   uptime_minutes_week = 60, downtime_minutes_week = 0\<rparr>"
    unfolding hour_body_times[OF bh]
    by (simp add: tm te ap dw time_hms_def zero_counters_def del: apportion.simps)
  show ?thesis
    by (simp add: estimate_def Let_def tr hb row_of_counters_def)
qed

subsection \<open>A weekday without business hours\<close>

lemma dt_time_next_hour:
  "dt_time (dt_add hs delta) = (dt_time hs + 3600000000) mod 86400000000"
proof -
  have "(instant hs + utcoffset hs + 3600000000) mod 86400000000 =
        ((instant hs + utcoffset hs) mod 86400000000 + 3600000000) mod 86400000000"
    by (rule mod_add_left_eq [symmetric])
  then show ?thesis
    by (simp add: dt_time_def dt_add_def delta_def td_hours_def add.assoc add.commute add.left_commute)
qed

lemma next_hour_positive:
  fixes t :: int
  assumes "0 \<le> t" "t < 86400000000"
  shows "(0 < (t + 3600000000) mod 86400000000) = (t \<noteq> 82800000000)"
proof (cases "t + 3600000000 < 86400000000")
  case True
  with assms have "(t + 3600000000) mod 86400000000 = t + 3600000000"
    by (intro mod_pos_pos_trivial) simp_all
  with assms True show ?thesis by simp
next
  case False
  have "(t + 3600000000 - 86400000000) mod 86400000000 = (t + 3600000000) mod 86400000000"
    by (rule minus_mod_self2)
  moreover from assms False
  have "(t + 3600000000 - 86400000000) mod 86400000000 = t + 3600000000 - 86400000000"
    by (intro mod_pos_pos_trivial) simp_all
  ultimately have "(t + 3600000000) mod 86400000000 = t - 82800000000" by simp
  with False show ?thesis by auto
qed

text \<open>
  Where the fallback \<open>(00:00:00, 23:59:59)\<close> treats the hour as within business hours:
  every hour that starts before 23:59:59, but for the one that starts at 23:00:00 sharp,
  whose end reads 00:00:00 on the clock.
\<close>

lemma fallback_within_business_hours:
  assumes "hours (PInt (dt_weekday hs)) = None"
  shows "business_hours hours (dt_weekday hs) = (PTime (time_hms 0 0 0), PTime (time_hms 23 59 59)) \<and>
         within_business_hours hs (dt_add hs delta) (PTime (time_hms 0 0 0)) (PTime (time_hms 23 59 59))
           = Inr (dt_time hs < time_hms 23 59 59 \<and> dt_time hs \<noteq> time_hms 23 0 0)"
proof -
  have r: "0 \<le> dt_time hs" "dt_time hs < 86400000000"
    by (simp_all add: dt_time_def)
  have e: "(time_hms 0 0 0 < dt_time (dt_add hs delta)) = (dt_time hs \<noteq> time_hms 23 0 0)"
    using next_hour_positive[OF r] by (simp add: dt_time_next_hour time_hms_def)
  show ?thesis
    using assms e
    by (cases "dt_time hs < time_hms 23 59 59")
       (simp_all add: business_hours_def within_business_hours_def)
qed

text \<open>
  C7, at the hour the fallback misses. Monday 1970-01-05, 23:00 to 24:00, for a store in
  UTC without any business hours: the fallback is what the lookup gives, the test of the
  overlap is false because the end of the hour reads 00:00:00, and the "active"
  observation of 23:00 is not counted.
\<close>

theorem hour_from_2300_not_within_fallback_hours:
  "dt_weekday \<lparr>instant = 428400000000, utcoffset = 0\<rparr> = 0 \<and>
   dt_time \<lparr>instant = 428400000000, utcoffset = 0\<rparr> = time_hms 23 0 0 \<and>
   business_hours Map.empty (dt_weekday \<lparr>instant = 428400000000, utcoffset = 0\<rparr>) =
     (PTime (time_hms 0 0 0), PTime (time_hms 23 59 59)) \<and>
   within_business_hours \<lparr>instant = 428400000000, utcoffset = 0\<rparr>
     (dt_add \<lparr>instant = 428400000000, utcoffset = 0\<rparr> delta)
     (PTime (time_hms 0 0 0)) (PTime (time_hms 23 59 59)) = Inr False \<and>
   estimate utc 1 [(428400000000, ''active'')] Map.empty 428400000000 432000000000 =
     Inr \<lparr>store_id = 1, uptime_last_hour = 0, downtime_last_hour = 0,
          uptime_last_day = 0, downtime_last_day = 0,
          uptime_last_week = 0, downtime_last_week = 0\<rparr>"
  by (simp add: estimate_def Let_def time_range_step time_range_stop hour_body_def
                business_hours_def within_business_hours_def in_day_window_def
                zero_counters_def row_of_counters_def
                dt_lt_def dt_add_def dt_time_def dt_weekday_def
                localize_def utc_def time_hms_def delta_def td_hours_def)

subsection \<open>A store without observations\<close>

lemma dt_weekday_range: "dt_weekday d \<in> {0..6}"
  by (simp add: dt_weekday_def)

lemma business_hours_time_valued:
  assumes "time_valued hours"
  shows "\<exists>a b. business_hours hours (dt_weekday hs) = (PTime a, PTime b)"
proof (cases "hours (PInt (dt_weekday hs))")
  case None
  then show ?thesis by (simp add: business_hours_def)
next
  case (Some v)
  obtain x y where v: "v = (x, y)" by (cases v)
  from assms dt_weekday_range[of hs] Some v
  have "(case x of PTime t \<Rightarrow> True | PInt n \<Rightarrow> False) \<and> (case y of PTime t \<Rightarrow> True | PInt n \<Rightarrow> False)"
    unfolding time_valued_def by fastforce
  then obtain a b where "x = PTime a" "y = PTime b"
    by (cases x; cases y) auto
  with Some v show ?thesis by (simp add: business_hours_def)
qed

lemma hour_body_no_data:
  "hour_body tz hours [] c hs = Inr c' \<Longrightarrow> c' = c"
  by (auto simp: hour_body_def Let_def split: prod.splits sum.splits bool.splits if_splits)

lemma hour_body_returns:
  assumes "time_valued hours"
  shows "\<exists>c'. hour_body tz hours data c hs = Inr c'"
proof -
  from business_hours_time_valued[OF assms, of hs]
  obtain a b where "business_hours hours (dt_weekday hs) = (PTime a, PTime b)" by blast
  from hour_body_times[OF this, of tz data c] show ?thesis
    by (auto split: prod.splits if_splits simp del: apportion.simps)
qed

lemma walk_hours_returns:
  "time_valued hours \<Longrightarrow> \<exists>c'. walk_hours tz hours data hs_list c = Inr c'"
proof (induction hs_list arbitrary: c)
  case Nil
  show ?case by simp
next
  case (Cons hs rest)
  from hour_body_returns[OF Cons.prems, of tz data c hs]
  obtain c1 where "hour_body tz hours data c hs = Inr c1" by blast
  with Cons.IH[OF Cons.prems, of c1] show ?case by simp
qed

lemma walk_hours_no_data:
  "walk_hours tz hours [] hs_list c = Inr c' \<Longrightarrow> c' = c"
proof (induction hs_list arbitrary: c)
  case Nil
  then show ?case by simp
next
  case (Cons hs rest)
  from Cons.prems obtain c1 where b: "hour_body tz hours [] c hs = Inr c1"
    and w: "walk_hours tz hours [] rest c1 = Inr c'"
    by (auto split: sum.splits)
  from hour_body_no_data[OF b] Cons.IH[OF w] show ?case by simp
qed

lemma estimate_no_data:
  "estimate tz sid [] hours s e = Inr r \<Longrightarrow> r = zero_row sid"
  by (auto simp: estimate_def Let_def row_of_counters_def zero_counters_def zero_row_def
           split: sum.splits dest!: walk_hours_no_data)

lemma estimate_returns:
  "time_valued hours \<Longrightarrow> \<exists>r. estimate tz sid data hours s e = Inr r"
  using walk_hours_returns[of hours tz data "time_range (localize tz s) (localize tz e)" zero_counters]
  by (auto simp: estimate_def Let_def)

lemma estimate_no_data_time_valued:
  "time_valued hours \<Longrightarrow> estimate tz sid [] hours s e = Inr (zero_row sid)"
  using estimate_returns[of hours tz sid "[]" s e] estimate_no_data by blast

subsection \<open>The dictionary of fetch\_store\_hours\<close>

lemma hours_of_rows_other_key:
  "\<forall>row \<in> set rows. row ! 0 \<noteq> key \<Longrightarrow> hours_of_rows rows hours key = hours key"
  by (induction rows arbitrary: hours) auto

lemma fetch_store_hours_other_key:
  "key \<noteq> PInt sid \<Longrightarrow> fetch_store_hours c sid key = None"
  unfolding fetch_store_hours_def
  by (subst hours_of_rows_other_key) (auto simp: select_menu_hours_def)

lemma fetch_store_hours_time_valued:
  "sid \<notin> {0..6} \<Longrightarrow> time_valued (fetch_store_hours c sid)"
  unfolding time_valued_def
proof
  fix dow :: int
  assume "sid \<notin> {0..6}" "dow \<in> {0..6}"
  then have "PInt dow \<noteq> PInt sid" by auto
  then show "case fetch_store_hours c sid (PInt dow) of
               None \<Rightarrow> True
             | Some (a, b) \<Rightarrow> (case a of PTime x \<Rightarrow> True | PInt n \<Rightarrow> False) \<and>
                              (case b of PTime x \<Rightarrow> True | PInt n \<Rightarrow> False)"
    by (simp add: fetch_store_hours_other_key)
qed

text \<open>
  C1, on a store with two schedule rows, Monday 09:00 to 17:00 and Tuesday 10:00 to 18:00.
  The dictionary has no entry for the weekdays 0 and 1; its single key is the store id,
  and the value there is the pair (weekday, opening time) of the last row.
\<close>

theorem fetch_store_hours_keyed_by_store_id:
  "fetch_store_hours
     \<lparr>menu_hours = [(101, 0, time_hms 9 0 0, time_hms 17 0 0),
                    (101, 1, time_hms 10 0 0, time_hms 18 0 0)],
      store_tz = [], store_data = [], reports = []\<rparr> 101
   = [PInt 101 \<mapsto> (PInt 1, PTime (time_hms 10 0 0))] \<and>
   fetch_store_hours
     \<lparr>menu_hours = [(101, 0, time_hms 9 0 0, time_hms 17 0 0),
                    (101, 1, time_hms 10 0 0, time_hms 18 0 0)],
      store_tz = [], store_data = [], reports = []\<rparr> 101 (PInt 0) = None \<and>
   fetch_store_hours
     \<lparr>menu_hours = [(101, 0, time_hms 9 0 0, time_hms 17 0 0),
                    (101, 1, time_hms 10 0 0, time_hms 18 0 0)],
      store_tz = [], store_data = [], reports = []\<rparr> 101 (PInt 1) = None"
  by (simp add: fetch_store_hours_def select_menu_hours_def)

subsection \<open>The schedule, through the whole function\<close>

text \<open>
  For a store id that is not one of 0 to 6 the dictionary has no entry for any weekday,
  so line 309 raises \<^verbatim>\<open>KeyError\<close> in every hour and the open-all-day fallback is what
  the overlap is tested against, whatever the schedule of the store.
\<close>

lemma fetched_hours_always_fallback:
  "sid \<notin> {0..6} \<Longrightarrow>
   business_hours (fetch_store_hours c sid) (dt_weekday hs) =
     (PTime (time_hms 0 0 0), PTime (time_hms 23 59 59))"
proof -
  assume "sid \<notin> {0..6}"
  with dt_weekday_range[of hs] have "PInt (dt_weekday hs) \<noteq> PInt sid" by auto
  then show ?thesis
    by (simp add: business_hours_def fetch_store_hours_other_key)
qed

text \<open>
  C6, through \<^verbatim>\<open>calculate_uptime_downtime\<close>. Store 101, in UTC, has business hours on
  Monday from 09:00 to 17:00 and one "active" observation at 18:00 of Monday 1970-01-05;
  the window is the hour from 18:00. The hour does not overlap the business hours
  (18:00 is not before 17:00), yet the dictionary has no entry for weekday 0, the
  fallback is taken and the hour adds sixty minutes to the hour, day and week counters.
\<close>

theorem hour_outside_schedule_is_counted:
  "dt_weekday (localize utc 410400000000) = 0 \<and>
   dt_time (localize utc 410400000000) = time_hms 18 0 0 \<and>
   fetch_store_hours (monday_store_conn 101 410400000000) 101 (PInt 0) = None \<and>
   calculate_uptime_downtime example_env (monday_store_conn 101 410400000000) 101
     410400000000 414000000000 =
     Inr \<lparr>store_id = 101, uptime_last_hour = 60, downtime_last_hour = 0,
          uptime_last_day = 1, downtime_last_day = 0,
          uptime_last_week = 1, downtime_last_week = 0\<rparr>"
  by (simp add: calculate_uptime_downtime_def fetch_store_timezone_def fetch_store_data_def
                fetch_store_hours_def select_menu_hours_def monday_store_conn_def
                example_env_def estimate_def Let_def time_range_step time_range_stop
                hour_body_def business_hours_def within_business_hours_def in_day_window_def
                zero_counters_def row_of_counters_def span_minutes_def total_seconds_def
                dt_max_def dt_sub_def dt_ge_def dt_lt_def dt_add_def dt_time_def dt_weekday_def
                localize_def utc_def time_hms_def delta_def td_hours_def)

text \<open>
  C9, through \<^verbatim>\<open>calculate_uptime_downtime\<close>. Store 0, in UTC, has business hours on
  Monday only, from 09:00 to 17:00, and one "active" observation at 09:00 of Monday
  1970-01-05; the window is that hour. The dictionary is \<open>{0: (0, 09:00)}\<close>: its key is
  the store id, which here equals the weekday, so line 309 takes the opening time 09:00
  for the closing time, \<open>09:00 < 09:00\<close> is false, the hour is skipped, and all six outputs
  are zero.
\<close>

theorem monday_scenario_store_zero_counts_nothing:
  "dt_weekday (localize utc 378000000000) = 0 \<and>
   dt_time (localize utc 378000000000) = time_hms 9 0 0 \<and>
   fetch_store_hours (monday_store_conn 0 378000000000) 0 (PInt 0) =
     Some (PInt 0, PTime (time_hms 9 0 0)) \<and>
   calculate_uptime_downtime example_env (monday_store_conn 0 378000000000) 0
     378000000000 381600000000 =
     Inr \<lparr>store_id = 0, uptime_last_hour = 0, downtime_last_hour = 0,
          uptime_last_day = 0, downtime_last_day = 0,
          uptime_last_week = 0, downtime_last_week = 0\<rparr>"
  by (simp add: calculate_uptime_downtime_def fetch_store_timezone_def fetch_store_data_def
                fetch_store_hours_def select_menu_hours_def monday_store_conn_def
                example_env_def estimate_def Let_def time_range_step time_range_stop
                hour_body_def business_hours_def within_business_hours_def in_day_window_def
                zero_counters_def row_of_counters_def
                dt_lt_def dt_add_def dt_time_def dt_weekday_def
                localize_def utc_def time_hms_def delta_def td_hours_def)

subsection \<open>The report\<close>


lemma calculate_no_data_returns:
  "pytz_timezone e (fetch_store_timezone c sid) = Some tz \<Longrightarrow>
   time_valued (fetch_store_hours c sid) \<Longrightarrow>
   fetch_store_data c sid start_time end_time = [] \<Longrightarrow>
   calculate_uptime_downtime e c sid start_time end_time = Inr (zero_row sid)"
  by (simp add: calculate_uptime_downtime_def Let_def estimate_no_data_time_valued)

lemma calculate_unknown_timezone:
  "pytz_timezone e (fetch_store_timezone c sid) = None \<Longrightarrow>
   calculate_uptime_downtime e c sid start_time end_time = Inl UnknownTimeZoneError"
  by (simp add: calculate_uptime_downtime_def Let_def)

text \<open>The computation reads the three data tables only, not the table of reports.\<close>

lemma calculate_ignores_reports:
  "calculate_uptime_downtime e (c\<lparr>reports := rs\<rparr>) sid start_time end_time =
   calculate_uptime_downtime e c sid start_time end_time"
  by (simp add: calculate_uptime_downtime_def fetch_store_timezone_def fetch_store_data_def
                fetch_store_hours_def select_menu_hours_def)

lemma report_loop_ignores_reports:
  "report_loop e (c\<lparr>reports := rs\<rparr>) stores k report_data = report_loop e c stores k report_data"
  by (induction stores arbitrary: k report_data)
     (simp_all add: calculate_ignores_reports split: sum.splits)


lemma report_loop_raises:
  "i < length stores \<Longrightarrow>
   calculate_uptime_downtime e c (stores ! i)
     (utcnow e (k + 2 * i) - td_weeks 1) (utcnow e (k + 2 * i + 1)) = Inl err \<Longrightarrow>
   \<exists>err'. report_loop e c stores k report_data = Inl err'"
proof (induction stores arbitrary: i k report_data)
  case Nil
  then show ?case by simp
next
  case (Cons sid stores)
  show ?case
  proof (cases "calculate_uptime_downtime e c sid (utcnow e k - td_weeks 1) (utcnow e (k + 1))")
    case (Inl err0)
    then show ?thesis by simp
  next
    case (Inr row)
    with Cons.prems obtain j where j: "i = Suc j"
      by (cases i) auto
    with Cons.prems have "j < length stores"
      and "calculate_uptime_downtime e c (stores ! j)
             (utcnow e (k + 2 + 2 * j) - td_weeks 1) (utcnow e (k + 2 + 2 * j + 1)) = Inl err"
      by (simp_all add: add.commute add.left_commute)
    from Cons.IH[OF this, of "report_data @ [row]"] Inr show ?thesis by simp
  qed
qed

text \<open>The two example databases, evaluated.\<close>

lemma example_store_101:
  "calculate_uptime_downtime example_env (example_conn\<lparr>reports := rs\<rparr>) 101
     (utcnow example_env k - td_weeks 1) (utcnow example_env k') = Inr (zero_row 101)"
proof (rule calculate_no_data_returns)
  show "pytz_timezone example_env (fetch_store_timezone (example_conn\<lparr>reports := rs\<rparr>) 101) = Some utc"
    by (simp add: example_env_def example_conn_def fetch_store_timezone_def)
  show "time_valued (fetch_store_hours (example_conn\<lparr>reports := rs\<rparr>) 101)"
    by (rule fetch_store_hours_time_valued) simp
  show "fetch_store_data (example_conn\<lparr>reports := rs\<rparr>) 101
          (utcnow example_env k - td_weeks 1) (utcnow example_env k') = []"
    by (simp add: example_env_def example_conn_def fetch_store_data_def td_weeks_def)
qed

lemma example_store_102:
  "calculate_uptime_downtime example_env (example_conn\<lparr>reports := rs\<rparr>) 102
     (utcnow example_env k - td_weeks 1) (utcnow example_env k') = Inr (zero_row 102)"
proof (rule calculate_no_data_returns)
  show "pytz_timezone example_env (fetch_store_timezone (example_conn\<lparr>reports := rs\<rparr>) 102)
          = Some (\<lambda>t. - 21600000000)"
    by (simp add: example_env_def example_conn_def fetch_store_timezone_def)
  show "time_valued (fetch_store_hours (example_conn\<lparr>reports := rs\<rparr>) 102)"
    by (rule fetch_store_hours_time_valued) simp
  show "fetch_store_data (example_conn\<lparr>reports := rs\<rparr>) 102
          (utcnow example_env k - td_weeks 1) (utcnow example_env k') = []"
    by (simp add: example_env_def example_conn_def fetch_store_data_def)
qed

lemma faulty_store_101:
  "calculate_uptime_downtime example_env (faulty_conn\<lparr>reports := rs\<rparr>) 101
     (utcnow example_env k - td_weeks 1) (utcnow example_env k') = Inr (zero_row 101)"
proof (rule calculate_no_data_returns)
  show "pytz_timezone example_env (fetch_store_timezone (faulty_conn\<lparr>reports := rs\<rparr>) 101) = Some utc"
    by (simp add: example_env_def example_conn_def faulty_conn_def fetch_store_timezone_def)
  show "time_valued (fetch_store_hours (faulty_conn\<lparr>reports := rs\<rparr>) 101)"
    by (rule fetch_store_hours_time_valued) simp
  show "fetch_store_data (faulty_conn\<lparr>reports := rs\<rparr>) 101
          (utcnow example_env k - td_weeks 1) (utcnow example_env k') = []"
    by (simp add: example_env_def example_conn_def faulty_conn_def fetch_store_data_def td_weeks_def)
qed

lemma faulty_store_102:
  "calculate_uptime_downtime example_env (faulty_conn\<lparr>reports := rs\<rparr>) 102 start_time end_time
     = Inl UnknownTimeZoneError"
  by (rule calculate_unknown_timezone)
     (simp add: example_env_def example_conn_def faulty_conn_def fetch_store_timezone_def)

lemma example_store_ids:
  "fetch_store_ids (example_conn\<lparr>reports := rs\<rparr>) = [101, 102]"
  "fetch_store_ids (faulty_conn\<lparr>reports := rs\<rparr>) = [101, 102]"
  by (simp_all add: fetch_store_ids_def example_conn_def faulty_conn_def)

lemma example_report:
  "generate_report_db example_env (example_conn\<lparr>reports := rs\<rparr>) report_id =
     Inr (update_report_status (example_conn\<lparr>reports := rs\<rparr>) (report_name example_env) report_id,
          report_name example_env, [zero_row 101, zero_row 102])"
proof -
  have "report_loop example_env (example_conn\<lparr>reports := rs\<rparr>) [101, 102] 0 [] =
          Inr [zero_row 101, zero_row 102]"
    by (simp add: example_store_101 example_store_102)
  moreover have "reports_dir_exists example_env"
    by (simp add: example_env_def)
  ultimately show ?thesis
    by (simp add: generate_report_db_def example_store_ids)
qed

lemma faulty_report:
  "generate_report_db example_env (faulty_conn\<lparr>reports := rs\<rparr>) report_id = Inl UnknownTimeZoneError"
proof -
  have "report_loop example_env (faulty_conn\<lparr>reports := rs\<rparr>) [101, 102] 0 [] =
          Inl UnknownTimeZoneError"
    by (simp add: faulty_store_101 faulty_store_102)
  then show ?thesis
    by (simp add: generate_report_db_def example_store_ids)
qed

lemma conn_reports_same: "c\<lparr>reports := reports c\<rparr> = c"
  by simp



text \<open>
  C4, as the code has it. \<^verbatim>\<open>generate_report\<close> has no handler around the computation of a
  row: when the computation of one store's row raises, the exception leaves
  \<^verbatim>\<open>generate_report\<close>, which writes no file, records nothing and so produces no row of
  any store.
\<close>

theorem failing_store_aborts_report:
  assumes "i < length (fetch_store_ids c)"
    and "calculate_uptime_downtime e c (fetch_store_ids c ! i)
           (utcnow e (2 * i) - td_weeks 1) (utcnow e (2 * i + 1)) = Inl err"
  shows "\<exists>err'. generate_report_db e c report_id = Inl err'"
proof -
  from assms
  have "\<exists>err'. report_loop e c (fetch_store_ids c) 0 [] = Inl err'"
    by (intro report_loop_raises[where i = i and err = err]) simp_all
  then show ?thesis
    by (auto simp: generate_report_db_def)
qed

theorem failing_store_aborts_report_witness:
  "1 < length (fetch_store_ids faulty_conn) \<and>
   calculate_uptime_downtime example_env faulty_conn (fetch_store_ids faulty_conn ! 1)
     (utcnow example_env (2 * 1) - td_weeks 1) (utcnow example_env (2 * 1 + 1)) =
     Inl UnknownTimeZoneError \<and>
   (\<exists>err'. generate_report_db example_env faulty_conn ''job-1'' = Inl err')"
proof -
  have ids: "fetch_store_ids faulty_conn = [101, 102]"
    using example_store_ids(2)[of "reports faulty_conn"] by (simp only: conn_reports_same)
  have a: "1 < length (fetch_store_ids faulty_conn)"
    by (simp add: ids)
  have b: "calculate_uptime_downtime example_env faulty_conn (fetch_store_ids faulty_conn ! 1)
     (utcnow example_env (2 * 1) - td_weeks 1) (utcnow example_env (2 * 1 + 1)) =
     Inl UnknownTimeZoneError"
    using faulty_store_102[of "reports faulty_conn"] by (simp only: conn_reports_same ids) simp
  from failing_store_aborts_report[OF a b] a b show ?thesis by blast
qed

text \<open>
  Two stores, the first computed without fault, the second with a zone name that pytz
  does not know: no report at all, not a report with the row of the first store.
\<close>

theorem failing_store_aborts_report_counterexample:
  "fetch_store_ids faulty_conn = [101, 102] \<and>
   calculate_uptime_downtime example_env faulty_conn 101
     (utcnow example_env 0 - td_weeks 1) (utcnow example_env 1) = Inr (zero_row 101) \<and>
   calculate_uptime_downtime example_env faulty_conn 102
     (utcnow example_env 2 - td_weeks 1) (utcnow example_env 3) = Inl UnknownTimeZoneError \<and>
   generate_report_db example_env faulty_conn ''job-1'' = Inl UnknownTimeZoneError"
  using example_store_ids(2)[of "reports faulty_conn"]
        faulty_store_101[of "reports faulty_conn" 0 1]
        faulty_store_102[of "reports faulty_conn" "utcnow example_env 2 - td_weeks 1" "utcnow example_env 3"]
        faulty_report[of "reports faulty_conn" "''job-1''"]
  by (simp only: conn_reports_same)

subsection \<open>The report job\<close>

lemma status_of_new_job:
  "report_id \<notin> fst ` set (reports c) \<Longrightarrow>
   get_report_status (c\<lparr>reports := reports c @ [(report_id, ''Running'')]\<rparr>) report_id
     = Some ''Running''"
proof -
  assume "report_id \<notin> fst ` set (reports c)"
  then have "filter (\<lambda>(rid, status). rid = report_id) (reports c) = []"
    by (force simp: filter_empty_conv)
  then show ?thesis
    by (simp add: get_report_status_def)
qed

lemma status_after_update_rows:
  "(case filter (\<lambda>(rid, status). rid = report_id)
           (map (\<lambda>(rid, status). if rid = report_id then (rid, new_status) else (rid, status)) rs) of
      [] \<Rightarrow> None | (rid, status) # rest \<Rightarrow> Some status) =
   (case filter (\<lambda>(rid, status). rid = report_id) rs of
      [] \<Rightarrow> None | (rid, status) # rest \<Rightarrow> Some new_status)"
  by (induction rs) auto

lemma status_after_update:
  "get_report_status c report_id = Some old_status \<Longrightarrow>
   get_report_status (update_report_status c new_status report_id) report_id = Some new_status"
  unfolding get_report_status_def update_report_status_def
  by (simp add: status_after_update_rows split: list.splits)

lemma report_name_not_running: "report_name e \<noteq> ''Running''"
  by (simp add: report_name_def)

text \<open>
  C5, as the code has it. A job is created in the state "Running". When the generation
  succeeds, the status becomes the path of the report file, which is not "Running", by
  the one \<^verbatim>\<open>UPDATE\<close> of the program. When the generation raises after the job is created,
  nothing handles the exception and no statement of the program writes the row again: the
  status stays "Running", and that is what every later poll reads.
\<close>

theorem report_job_status:
  assumes "report_id \<notin> fst ` set (reports c)"
  shows "get_report_status (c\<lparr>reports := reports c @ [(report_id, ''Running'')]\<rparr>) report_id
           = Some ''Running'' \<and>
         (case generate_report e c report_id of
            (c', None) \<Rightarrow>
              get_report_status c' report_id = Some (report_name e) \<and> report_name e \<noteq> ''Running''
          | (c', Some err) \<Rightarrow>
              c' = c\<lparr>reports := reports c @ [(report_id, ''Running'')]\<rparr> \<and>
              get_report_status c' report_id = Some ''Running'')"
proof -
  let ?c1 = "c\<lparr>reports := reports c @ [(report_id, ''Running'')]\<rparr>"
  have new: "get_report_status ?c1 report_id = Some ''Running''"
    using assms by (rule status_of_new_job)
  show ?thesis
  proof (cases "generate_report_db e ?c1 report_id")
    case (Inl err)
    then show ?thesis using new by (simp add: generate_report_def)
  next
    case (Inr res)
    then obtain c2 name rows where res: "res = (c2, name, rows)" by (cases res) auto
    with Inr have "c2 = update_report_status ?c1 (report_name e) report_id"
      by (auto simp: generate_report_db_def split: sum.splits if_splits)
    with new have "get_report_status c2 report_id = Some (report_name e)"
      by (simp add: status_after_update)
    with Inr res new show ?thesis
      by (simp add: generate_report_def report_name_not_running)
  qed
qed

theorem report_job_status_witness:
  "''job-1'' \<notin> fst ` set (reports example_conn) \<and>
   snd (generate_report example_env example_conn ''job-1'') = None \<and>
   get_report_status (fst (generate_report example_env example_conn ''job-1'')) ''job-1''
     = Some ''reports/report_19700113_000000.csv''"
proof -
  have a: "''job-1'' \<notin> fst ` set (reports example_conn)"
    by (simp add: example_conn_def)
  have g: "snd (generate_report example_env example_conn ''job-1'') = None"
    by (simp add: generate_report_def example_report)
  have n: "report_name example_env = ''reports/report_19700113_000000.csv''"
    by (simp add: report_name_def example_env_def)
  from report_job_status[OF a, of example_env] g n a show ?thesis
    by (cases "generate_report example_env example_conn ''job-1''") auto
qed

text \<open>
  The job whose second store has an unknown zone name: the generation raises, and the
  job that was created "Running" is still "Running" when the task has ended.
\<close>

theorem report_job_status_counterexample:
  "''job-1'' \<notin> fst ` set (reports faulty_conn) \<and>
   generate_report example_env faulty_conn ''job-1'' =
     (faulty_conn\<lparr>reports := [(''job-1'', ''Running'')]\<rparr>, Some UnknownTimeZoneError) \<and>
   get_report_status (fst (generate_report example_env faulty_conn ''job-1'')) ''job-1''
     = Some ''Running''"
proof -
  have r: "reports faulty_conn = []"
    by (simp add: faulty_conn_def example_conn_def)
  have g: "generate_report example_env faulty_conn ''job-1'' =
     (faulty_conn\<lparr>reports := [(''job-1'', ''Running'')]\<rparr>, Some UnknownTimeZoneError)"
    by (simp add: generate_report_def faulty_report r)
  show ?thesis
    by (simp add: g r get_report_status_def)
qed

end
